theory Spec2Isabelle
  imports Complex_Main
begin

section \<open>Calendar dates: the part of Python's datetime the script calls\<close>

text \<open>
  The script \<^verbatim>\<open>backend/src/scripts/fetch_yfinance.py\<close> calls three operations of the
  standard library on its end date: \<^verbatim>\<open>datetime.strptime(end_date, '%Y-%m-%d')\<close>,
  \<^verbatim>\<open>+ timedelta(days=1)\<close> and \<^verbatim>\<open>.strftime('%Y-%m-%d')\<close>. A datetime produced by this
  \<^verbatim>\<open>strptime\<close> format is a calendar date at midnight, adding whole days keeps the time of
  day and the output format prints the date only, so a value is modelled by its year,
  month and day.
\<close>

record date =
  year :: nat
  month :: nat
  day :: nat

text \<open>The two exceptions that the date operations raise.\<close>

datatype date_error = ValueError | OverflowError

text \<open>\<^verbatim>\<open>_is_leap\<close>, \<^verbatim>\<open>_days_in_month\<close>: the proleptic Gregorian calendar.\<close>

definition is_leap :: "nat \<Rightarrow> bool" where
  "is_leap y = (if y mod 4 = 0 then (if y mod 100 = 0 then y mod 400 = 0 else True) else False)"

definition days_in_month :: "nat \<Rightarrow> nat \<Rightarrow> nat" where
  "days_in_month y m =
     (if m = 2 then (if is_leap y then 29 else 28)
      else if m = 4 then 30 else if m = 6 then 30 else if m = 9 then 30
      else if m = 11 then 30 else 31)"

text \<open>
  The constructor \<^verbatim>\<open>datetime.date(year, month, day)\<close>: years run from \<^verbatim>\<open>MINYEAR = 1\<close> to
  \<^verbatim>\<open>MAXYEAR = 9999\<close>, and anything else raises \<^verbatim>\<open>ValueError\<close>.
\<close>

definition valid_date :: "date \<Rightarrow> bool" where
  "valid_date dt =
     (1 \<le> year dt \<and> year dt \<le> 9999 \<and> 1 \<le> month dt \<and> month dt \<le> 12 \<and>
      1 \<le> day dt \<and> day dt \<le> days_in_month (year dt) (month dt))"

definition datetime_date :: "nat \<Rightarrow> nat \<Rightarrow> nat \<Rightarrow> date_error + date" where
  "datetime_date y m d =
     (if valid_date \<lparr>year = y, month = m, day = d\<rparr>
      then Inr \<lparr>year = y, month = m, day = d\<rparr> else Inl ValueError)"

text \<open>
  \<^verbatim>\<open>date.toordinal()\<close>: the number of the day, 0001-01-01 being day 1
  (\<^verbatim>\<open>_days_before_year\<close>, \<^verbatim>\<open>_days_before_month\<close>, \<^verbatim>\<open>_ymd2ord\<close>).
\<close>

definition days_before_year :: "nat \<Rightarrow> int" where
  "days_before_year y =
     (let y1 = int y - 1 in y1 * 365 + y1 div 4 - y1 div 100 + y1 div 400)"

fun days_before_month_table :: "nat \<Rightarrow> int" where
  "days_before_month_table m =
     (if m = 1 then 0 else if m = 2 then 31 else if m = 3 then 59 else if m = 4 then 90
      else if m = 5 then 120 else if m = 6 then 151 else if m = 7 then 181
      else if m = 8 then 212 else if m = 9 then 243 else if m = 10 then 273
      else if m = 11 then 304 else 334)"

definition days_before_month :: "nat \<Rightarrow> nat \<Rightarrow> int" where
  "days_before_month y m =
     days_before_month_table m + (if 2 < m \<and> is_leap y then 1 else 0)"

definition toordinal :: "date \<Rightarrow> int" where
  "toordinal dt =
     days_before_year (year dt) + days_before_month (year dt) (month dt) + int (day dt)"

text \<open>
  Adding \<^verbatim>\<open>timedelta(days=n)\<close> moves a date \<open>n\<close> days forward in the calendar, and raises
  \<^verbatim>\<open>OverflowError\<close> (``date value out of range'') when that leaves the years 1 to 9999.
  \<open>next_day\<close> is the calendar successor; \<open>plus_timedelta_days\<close> takes it \<open>n\<close> times.
\<close>

definition next_day :: "date \<Rightarrow> date" where
  "next_day dt =
     (if day dt < days_in_month (year dt) (month dt) then dt\<lparr>day := day dt + 1\<rparr>
      else if month dt < 12 then dt\<lparr>month := month dt + 1, day := 1\<rparr>
      else \<lparr>year = year dt + 1, month = 1, day = 1\<rparr>)"

definition date_max :: date where
  "date_max = \<lparr>year = 9999, month = 12, day = 31\<rparr>"

fun plus_timedelta_days :: "date \<Rightarrow> nat \<Rightarrow> date_error + date" where
  "plus_timedelta_days dt 0 = Inr dt"
| "plus_timedelta_days dt (Suc n) =
     (if dt = date_max then Inl OverflowError else plus_timedelta_days (next_day dt) n)"

subsection \<open>Parsing with the format \<^verbatim>\<open>%Y-%m-%d\<close>\<close>

text \<open>
  \<^verbatim>\<open>strptime\<close> turns the format into the regular expression
  \<^verbatim>\<open>(?P<Y>\d\d\d\d)-(?P<m>1[0-2]|0[1-9]|[1-9])-(?P<d>3[0-1]|[1-2]\d|0[1-9]|[1-9]| [1-9])\<close>,
  matches it at the start of the string, raises \<^verbatim>\<open>ValueError\<close> when it does not match or
  when text remains after the match, converts the three groups with \<^verbatim>\<open>int\<close> and builds the
  date, which raises \<^verbatim>\<open>ValueError\<close> for year 0 and for a day the month does not have.
  So a month or a day of one digit is accepted. A string is a list of 8-bit characters,
  among which \<^verbatim>\<open>\d\<close> matches the ten digits. Each matcher below returns the number read
  and the rest of the string. The alternatives of a group are tried in the order written;
  where an earlier alternative matches, no later one can lead to a match of the whole
  expression (the next character would have to be \<^verbatim>\<open>-\<close> and is a digit), so the first
  alternative that matches is the one taken.
\<close>

definition is_digit :: "char \<Rightarrow> bool" where
  "is_digit c = (c \<in> set ''0123456789'')"

definition nonzero_digit :: "char \<Rightarrow> bool" where
  "nonzero_digit c = (c \<in> set ''123456789'')"

text \<open>\<^verbatim>\<open>int\<close> of one matched digit.\<close>

definition digit_table :: "(char \<times> nat) list" where
  "digit_table = zip ''0123456789'' [0, 1, 2, 3, 4, 5, 6, 7, 8, 9]"

definition digit_val :: "char \<Rightarrow> nat" where
  "digit_val c = (case map_of digit_table c of Some n \<Rightarrow> n | None \<Rightarrow> 0)"

fun match_Y :: "string \<Rightarrow> (nat \<times> string) option" where
  "match_Y (a # b # c # d # rest) =
     (if is_digit a \<and> is_digit b \<and> is_digit c \<and> is_digit d
      then Some (1000 * digit_val a + 100 * digit_val b + 10 * digit_val c + digit_val d, rest)
      else None)"
| "match_Y _ = None"

fun match_dash :: "string \<Rightarrow> string option" where
  "match_dash (c # rest) = (if c = CHR ''-'' then Some rest else None)"
| "match_dash [] = None"

fun match_m :: "string \<Rightarrow> (nat \<times> string) option" where
  "match_m (a # b # rest) =
     (if a = CHR ''1'' \<and> b \<in> set ''012'' then Some (10 + digit_val b, rest)
      else if a = CHR ''0'' \<and> nonzero_digit b then Some (digit_val b, rest)
      else if nonzero_digit a then Some (digit_val a, b # rest)
      else None)"
| "match_m [a] = (if nonzero_digit a then Some (digit_val a, []) else None)"
| "match_m [] = None"

fun match_d :: "string \<Rightarrow> (nat \<times> string) option" where
  "match_d (a # b # rest) =
     (if a = CHR ''3'' \<and> b \<in> set ''01'' then Some (30 + digit_val b, rest)
      else if a \<in> set ''12'' \<and> is_digit b then Some (10 * digit_val a + digit_val b, rest)
      else if a = CHR ''0'' \<and> nonzero_digit b then Some (digit_val b, rest)
      else if nonzero_digit a then Some (digit_val a, b # rest)
      else if a = CHR '' '' \<and> nonzero_digit b then Some (digit_val b, rest)
      else None)"
| "match_d [a] = (if nonzero_digit a then Some (digit_val a, []) else None)"
| "match_d [] = None"

definition strptime_Ymd :: "string \<Rightarrow> date_error + date" where
  "strptime_Ymd data_string =
     (case match_Y data_string of
        None \<Rightarrow> Inl ValueError
      | Some (y, r1) \<Rightarrow>
     (case match_dash r1 of
        None \<Rightarrow> Inl ValueError
      | Some r2 \<Rightarrow>
     (case match_m r2 of
        None \<Rightarrow> Inl ValueError
      | Some (m, r3) \<Rightarrow>
     (case match_dash r3 of
        None \<Rightarrow> Inl ValueError
      | Some r4 \<Rightarrow>
     (case match_d r4 of
        None \<Rightarrow> Inl ValueError
      | Some (d, r5) \<Rightarrow>
          if r5 = [] then datetime_date y m d else Inl ValueError)))))"

subsection \<open>Printing with the format \<^verbatim>\<open>%Y-%m-%d\<close>\<close>

text \<open>
  The month and the day are printed with two digits, and a year from 1000 on with its four.
  For a year below 1000 the platform's C library decides: the library's documentation
  shows the year padded with zeros (0001), the GNU C library prints it as it is (1). So
  whether the year is padded is a parameter, \<open>pad\<close>.
\<close>

definition digit_char :: "nat \<Rightarrow> char" where
  "digit_char n = ''0123456789'' ! (n mod 10)"

definition year_text :: "bool \<Rightarrow> nat \<Rightarrow> string" where
  "year_text pad y =
     (if pad \<or> 1000 \<le> y
      then [digit_char (y div 1000), digit_char (y div 100), digit_char (y div 10),
            digit_char y]
      else if 100 \<le> y then [digit_char (y div 100), digit_char (y div 10), digit_char y]
      else if 10 \<le> y then [digit_char (y div 10), digit_char y]
      else [digit_char y])"

definition strftime_Ymd :: "bool \<Rightarrow> date \<Rightarrow> string" where
  "strftime_Ymd pad dt =
     year_text pad (year dt) @
     [CHR ''-'', digit_char (month dt div 10), digit_char (month dt),
      CHR ''-'', digit_char (day dt div 10), digit_char (day dt)]"

text \<open>The shape \<^verbatim>\<open>YYYY-MM-DD\<close>: ten characters, digits around two dashes.\<close>

definition iso_shape :: "string \<Rightarrow> bool" where
  "iso_shape s =
     (case s of
        [y1, y2, y3, y4, d1, m1, m2, d2, a1, a2] \<Rightarrow>
          is_digit y1 \<and> is_digit y2 \<and> is_digit y3 \<and> is_digit y4 \<and> d1 = CHR ''-'' \<and>
          is_digit m1 \<and> is_digit m2 \<and> d2 = CHR ''-'' \<and> is_digit a1 \<and> is_digit a2
      | _ \<Rightarrow> False)"

section \<open>Python values, exceptions and the provider\<close>

text \<open>
  The values the script builds and hands to \<^verbatim>\<open>json.dumps\<close>: strings, integers, floats,
  lists, and dictionaries as association lists in insertion order, which is the order
  \<^verbatim>\<open>json.dumps\<close> writes the keys in. 64-bit floating point is not part of HOL, so the type
  \<open>'f\<close> of float values is a parameter.
\<close>

datatype 'f pyval =
    PyStr string
  | PyInt int
  | PyFloat 'f
  | PyList "'f pyval list"
  | PyDict "(string \<times> 'f pyval) list"

text \<open>
  An exception raised inside the \<^verbatim>\<open>try\<close> block: whether it is an instance of
  \<^verbatim>\<open>Exception\<close> (\<^verbatim>\<open>KeyboardInterrupt\<close> and \<^verbatim>\<open>SystemExit\<close> are not: they derive from
  \<^verbatim>\<open>BaseException\<close> only), and its text \<^verbatim>\<open>str(e)\<close>.
\<close>

datatype raised = Raised (is_Exception: bool) (str: string)

text \<open>
  An exception that leaves \<^verbatim>\<open>fetch_data\<close>: one of the date operations' (they stand
  before the \<^verbatim>\<open>try\<close>), or one that \<^verbatim>\<open>except Exception\<close> does not catch.
\<close>

datatype propagated = DateError date_error | Uncaught raised

text \<open>
  The provider is the library \<^verbatim>\<open>yfinance\<close>: \<^verbatim>\<open>yf.Ticker(symbol).history(start=s, end=e)\<close>.
  It is opaque to the script, so it is a parameter: a function from the query to an
  exception or a table. The table has the columns of the provider's contract, the index
  \<^verbatim>\<open>Date\<close> among them, as \<^verbatim>\<open>reset_index\<close> leaves it; it is the list of its rows, and
  \<^verbatim>\<open>df.empty\<close> holds when there is no row. A cell of the datetime column \<^verbatim>\<open>Date\<close> is a
  timestamp, of which \<^verbatim>\<open>strftime('%Y-%m-%d')\<close> reads the calendar date, or the missing
  value \<^verbatim>\<open>NaT\<close>. The cells of the other columns are objects of a type \<open>'c\<close> that the
  script only passes to \<^verbatim>\<open>float\<close> and \<^verbatim>\<open>int\<close>.
\<close>

record query =
  symbol :: string
  start_arg :: string
  end_arg :: string

datatype date_cell = Timestamp date | NaT

record 'c row =
  Date :: date_cell
  Open :: 'c
  High :: 'c
  Low :: 'c
  Close :: 'c
  Volume :: 'c

type_synonym 'c provider = "query \<Rightarrow> raised + 'c row list"

text \<open>
  What the script takes from its environment. The builtins \<^verbatim>\<open>float\<close> and \<^verbatim>\<open>int\<close> call
  the cell's own conversion, so what they return or raise comes with the cells: they are
  parameters too. \<open>pads_year\<close> says whether \<^verbatim>\<open>strftime\<close> pads a year below 1000.
\<close>

record ('c, 'f) library =
  py_float :: "'c \<Rightarrow> raised + 'f"
  py_int :: "'c \<Rightarrow> raised + int"
  pads_year :: bool

text \<open>
  \<^verbatim>\<open>row['Date'].strftime('%Y-%m-%d')\<close>: on \<^verbatim>\<open>NaT\<close>, pandas raises
  \<^verbatim>\<open>ValueError("NaTType does not support strftime")\<close>.
\<close>

fun strftime_cell :: "bool \<Rightarrow> date_cell \<Rightarrow> raised + string" where
  "strftime_cell pad (Timestamp dt) = Inr (strftime_Ymd pad dt)"
| "strftime_cell pad NaT = Inl (Raised True ''NaTType does not support strftime'')"

section \<open>The fetch operation\<close>

text \<open>
  Lines 34 to 41, the dictionary built for one row. Python evaluates the entries of a
  dictionary display from first to last, so the first conversion that raises ends it.
\<close>

definition bar_of_row :: "('c, 'f) library \<Rightarrow> 'c row \<Rightarrow> raised + 'f pyval" where
  "bar_of_row L row =
     (case strftime_cell (pads_year L) (Date row) of Inl e \<Rightarrow> Inl e | Inr d \<Rightarrow>
     (case py_float L (Open row) of Inl e \<Rightarrow> Inl e | Inr opn \<Rightarrow>
     (case py_float L (High row) of Inl e \<Rightarrow> Inl e | Inr hi \<Rightarrow>
     (case py_float L (Low row) of Inl e \<Rightarrow> Inl e | Inr lo \<Rightarrow>
     (case py_float L (Close row) of Inl e \<Rightarrow> Inl e | Inr cl \<Rightarrow>
     (case py_int L (Volume row) of Inl e \<Rightarrow> Inl e | Inr vol \<Rightarrow>
        Inr (PyDict
          [(''date'', PyStr d), (''open'', PyFloat opn), (''high'', PyFloat hi),
           (''low'', PyFloat lo), (''close'', PyFloat cl), (''volume'', PyInt vol)])))))))"

text \<open>Lines 32 to 41, the loop over \<^verbatim>\<open>df.iterrows()\<close> that appends to \<^verbatim>\<open>results\<close>.\<close>

fun rows_loop ::
  "('c, 'f) library \<Rightarrow> 'c row list \<Rightarrow> 'f pyval list \<Rightarrow> raised + 'f pyval list" where
  "rows_loop L [] results = Inr results"
| "rows_loop L (row # rest) results =
     (case bar_of_row L row of
        Inl e \<Rightarrow> Inl e
      | Inr bar \<Rightarrow> rows_loop L rest (results @ [bar]))"

text \<open>Lines 22 to 42, the body of the \<^verbatim>\<open>try\<close>.\<close>

definition try_body :: "'c provider \<Rightarrow> ('c, 'f) library \<Rightarrow> query \<Rightarrow> raised + 'f pyval" where
  "try_body P L q =
     (case P q of
        Inl e \<Rightarrow> Inl e
      | Inr df \<Rightarrow>
          if df = [] then Inr (PyList [])
          else (case rows_loop L df [] of
                  Inl e \<Rightarrow> Inl e
                | Inr results \<Rightarrow> Inr (PyList results)))"

text \<open>Lines 43 and 44: \<^verbatim>\<open>except Exception as e: return {"error": str(e)}\<close>.\<close>

definition except_Exception :: "raised + 'f pyval \<Rightarrow> propagated + 'f pyval" where
  "except_Exception r =
     (case r of
        Inr v \<Rightarrow> Inr v
      | Inl e \<Rightarrow>
          if is_Exception e then Inr (PyDict [(''error'', PyStr (str e))])
          else Inl (Uncaught e))"

text \<open>
  Lines 14 and 15, the branch taken when the two dates are the same string, and lines 18
  and 19, the other branch; each is translated from its own lines.
\<close>

definition same_day_branch :: "bool \<Rightarrow> string \<Rightarrow> date_error + string" where
  "same_day_branch pad end_date =
     (case strptime_Ymd end_date of
        Inl e \<Rightarrow> Inl e
      | Inr parsed \<Rightarrow>
          (case plus_timedelta_days parsed 1 of
             Inl e \<Rightarrow> Inl e
           | Inr end_dt \<Rightarrow> Inr (strftime_Ymd pad end_dt)))"

definition range_branch :: "bool \<Rightarrow> string \<Rightarrow> date_error + string" where
  "range_branch pad end_date =
     (case strptime_Ymd end_date of
        Inl e \<Rightarrow> Inl e
      | Inr parsed \<Rightarrow>
          (case plus_timedelta_days parsed 1 of
             Inl e \<Rightarrow> Inl e
           | Inr end_dt \<Rightarrow> Inr (strftime_Ymd pad end_dt)))"

text \<open>
  \<^verbatim>\<open>fetch_data(ticker, start_date, end_date)\<close>. The result is the list of the queries sent
  to the provider, and the exception that leaves the function or the value it returns.
\<close>

definition fetch_data ::
  "'c provider \<Rightarrow> ('c, 'f) library \<Rightarrow> string \<Rightarrow> string \<Rightarrow> string \<Rightarrow>
     query list \<times> (propagated + 'f pyval)" where
  "fetch_data P L ticker start_date end_date =
     (let yf_ticker = ticker @ ''.JK'' in
      case (if start_date = end_date then same_day_branch (pads_year L) end_date
            else range_branch (pads_year L) end_date) of
        Inl e \<Rightarrow> ([], Inl (DateError e))
      | Inr end_date' \<Rightarrow>
          (let q = \<lparr>symbol = yf_ticker, start_arg = start_date, end_arg = end_date'\<rparr>
           in ([q], except_Exception (try_body P L q))))"

section \<open>The command-line entry point\<close>

text \<open>
  Lines 46 to 56. \<open>argv\<close> is \<^verbatim>\<open>sys.argv\<close>, the script's name first. A run ends by
  \<^verbatim>\<open>sys.exit(1)\<close>, by reaching the end of the script (status 0), or by an exception
  nothing catches, which the interpreter reports on standard error. \<open>stdout\<close> lists the
  values printed, each the argument of one \<^verbatim>\<open>print(json.dumps(...))\<close>.
\<close>

datatype ending = Exit int | UncaughtException propagated

record 'f process =
  queries :: "query list"
  stdout :: "'f pyval list"
  ending :: ending

definition usage_error :: "'f pyval" where
  "usage_error =
     PyDict [(''error'', PyStr ''Usage: python fetch_yfinance.py TICKER START_DATE END_DATE'')]"

definition main :: "'c provider \<Rightarrow> ('c, 'f) library \<Rightarrow> string list \<Rightarrow> 'f process" where
  "main P L argv =
     (if length argv < 4
      then \<lparr>queries = [], stdout = [usage_error], ending = Exit 1\<rparr>
      else
        (let ticker = argv ! 1; start = argv ! 2; end_a = argv ! 3 in
         case fetch_data P L ticker start end_a of
           (qs, Inl e) \<Rightarrow> \<lparr>queries = qs, stdout = [], ending = UncaughtException e\<rparr>
         | (qs, Inr data) \<Rightarrow> \<lparr>queries = qs, stdout = [data], ending = Exit 0\<rparr>))"

section \<open>The single code path of the specification\<close>

text \<open>
  The specification describes the end-date adjustment as one transformation, applied
  whether or not the two dates are equal: parse, add one day, print. \<open>add_one_day\<close> and
  \<open>fetch_data_unified\<close> follow those words; \<open>fetch_data\<close> above follows the code.
\<close>

definition add_one_day :: "bool \<Rightarrow> string \<Rightarrow> date_error + string" where
  "add_one_day pad end_date =
     (case strptime_Ymd end_date of
        Inl e \<Rightarrow> Inl e
      | Inr parsed \<Rightarrow>
          if parsed = date_max then Inl OverflowError
          else Inr (strftime_Ymd pad (next_day parsed)))"

definition fetch_data_unified ::
  "'c provider \<Rightarrow> ('c, 'f) library \<Rightarrow> string \<Rightarrow> string \<Rightarrow> string \<Rightarrow>
     query list \<times> (propagated + 'f pyval)" where
  "fetch_data_unified P L ticker start_date end_date =
     (case add_one_day (pads_year L) end_date of
        Inl e \<Rightarrow> ([], Inl (DateError e))
      | Inr end_date' \<Rightarrow>
          (let q = \<lparr>symbol = ticker @ ''.JK'', start_arg = start_date, end_arg = end_date'\<rparr>
           in ([q], except_Exception (try_body P L q))))"

section \<open>Sample data\<close>

text \<open>
  Cells, conversions, rows and providers to run the definitions on. A sample cell is an
  integer or a float that a real number stands for; \<^verbatim>\<open>float\<close> and \<^verbatim>\<open>int\<close> convert both, the
  latter towards zero; the year is not padded. The second row has a negative volume and an
  integer among its prices; \<open>bar_jan_2\<close> and \<open>bar_jan_3\<close> are the dictionaries the two rows
  become.
\<close>

datatype sample_cell = IntCell int | FloatCell real

definition sample_library :: "(sample_cell, real) library" where
  "sample_library =
     \<lparr>py_float = (\<lambda>c. case c of IntCell i \<Rightarrow> Inr (real_of_int i) | FloatCell x \<Rightarrow> Inr x),
      py_int = (\<lambda>c. case c of IntCell i \<Rightarrow> Inr i
                | FloatCell x \<Rightarrow> Inr (if 0 \<le> x then \<lfloor>x\<rfloor> else \<lceil>x\<rceil>)),
      pads_year = False\<rparr>"

definition row_jan_2 :: "sample_cell row" where
  "row_jan_2 =
     \<lparr>Date = Timestamp \<lparr>year = 2024, month = 1, day = 2\<rparr>,
      Open = FloatCell 9400, High = FloatCell 9425, Low = FloatCell 9350,
      Close = FloatCell 9375, Volume = IntCell 45000000\<rparr>"

definition row_jan_3 :: "sample_cell row" where
  "row_jan_3 =
     \<lparr>Date = Timestamp \<lparr>year = 2024, month = 1, day = 3\<rparr>,
      Open = FloatCell 9375, High = FloatCell 9450, Low = IntCell 9300,
      Close = FloatCell 9425, Volume = IntCell (- 100)\<rparr>"

definition bar_jan_2 :: "real pyval" where
  "bar_jan_2 =
     PyDict [(''date'', PyStr ''2024-01-02''), (''open'', PyFloat 9400),
       (''high'', PyFloat 9425), (''low'', PyFloat 9350), (''close'', PyFloat 9375),
       (''volume'', PyInt 45000000)]"

definition bar_jan_3 :: "real pyval" where
  "bar_jan_3 =
     PyDict [(''date'', PyStr ''2024-01-03''), (''open'', PyFloat 9375),
       (''high'', PyFloat 9450), (''low'', PyFloat 9300), (''close'', PyFloat 9425),
       (''volume'', PyInt (- 100))]"

definition row_missing_date :: "sample_cell row" where
  "row_missing_date = row_jan_3\<lparr>Date := NaT\<rparr>"

text \<open>A provider that knows one symbol, and providers that raise a given exception.\<close>

definition sample_provider :: "sample_cell provider" where
  "sample_provider q = (if symbol q = ''BBCA.JK'' then Inr [row_jan_2, row_jan_3] else Inr [])"

definition broken_table_provider :: "sample_cell provider" where
  "broken_table_provider q = Inr [row_jan_2, row_missing_date, row_jan_3]"

definition raising_provider :: "raised \<Rightarrow> sample_cell provider" where
  "raising_provider e q = Inl e"

definition sample_argv :: "string \<Rightarrow> string list" where
  "sample_argv end_a = [''fetch_yfinance.py'', ''BBCA'', ''2024-01-02'', end_a]"

section \<open>Properties of the calendar operations\<close>

lemma days_before_year_Suc:
  "days_before_year (Suc n) =
     int n * 365 + int (n div 4) - int (n div 100) + int (n div 400)"
  by (simp add: days_before_year_def Let_def zdiv_int)

lemma leap_mod_facts:
  fixes y :: nat
  shows "y mod 400 = 0 \<Longrightarrow> y mod 100 = 0" and "y mod 100 = 0 \<Longrightarrow> y mod 4 = 0"
  by presburger+

lemma days_before_year_step:
  assumes "1 \<le> y"
  shows "days_before_year (Suc y) = days_before_year y + (if is_leap y then 366 else 365)"
proof -
  from assms obtain n where y: "y = Suc n" by (cases y) auto
  have a: "Suc n mod 400 = 0 \<Longrightarrow> Suc n mod 100 = 0"
    by (rule leap_mod_facts(1))
  have b: "Suc n mod 100 = 0 \<Longrightarrow> Suc n mod 4 = 0"
    by (rule leap_mod_facts(2))
  show ?thesis
    unfolding y days_before_year_Suc is_leap_def
    using a b by (simp add: div_Suc)
qed

text \<open>The calendar successor is the day whose ordinal is one more.\<close>

lemma toordinal_next_day:
  assumes "valid_date dt"
  shows "toordinal (next_day dt) = toordinal dt + 1"
proof (cases "day dt < days_in_month (year dt) (month dt)")
  case True
  then show ?thesis by (simp add: toordinal_def next_day_def)
next
  case False
  with assms have d: "day dt = days_in_month (year dt) (month dt)"
    by (simp add: valid_date_def)
  from assms have "1 \<le> month dt" "month dt \<le> 12"
    by (simp_all add: valid_date_def)
  then have m: "month dt \<in> {1,2,3,4,5,6,7,8,9,10,11,12}"
    by simp arith
  show ?thesis
  proof (cases "month dt < 12")
    case True
    with m d False show ?thesis
      by (auto simp: toordinal_def next_day_def days_before_month_def days_in_month_def)
  next
    case False
    with m have m12: "month dt = 12" by auto
    from assms have "1 \<le> year dt" by (simp add: valid_date_def)
    from days_before_year_step[OF this] m12 d show ?thesis
      by (simp add: toordinal_def next_day_def days_before_month_def days_in_month_def)
  qed
qed

lemma days_in_month_bounds: "28 \<le> days_in_month y m" "days_in_month y m \<le> 31"
  by (simp_all add: days_in_month_def)

subsection \<open>Printing and parsing back\<close>

lemma mod10_cases: "(n::nat) mod 10 \<in> {0, 1, 2, 3, 4, 5, 6, 7, 8, 9}"
proof -
  have "n mod 10 < 10" by simp
  then show ?thesis by simp arith
qed

lemma digit_char_props:
  "is_digit (digit_char n)" "digit_val (digit_char n) = n mod 10"
  "digit_char n \<noteq> CHR ''-''" "digit_char n \<noteq> CHR '' ''"
  using mod10_cases[of n]
  by (auto simp: digit_char_def is_digit_def digit_val_def digit_table_def)

lemma digit_char_nonzero: "n mod 10 \<noteq> 0 \<Longrightarrow> nonzero_digit (digit_char n)"
  using mod10_cases[of n]
  by (auto simp: digit_char_def nonzero_digit_def)

lemma digit_val_simps:
  "digit_val CHR ''0'' = 0" "digit_val CHR ''1'' = 1" "digit_val CHR ''2'' = 2"
  "digit_val CHR ''3'' = 3"
  by (simp_all add: digit_val_def digit_table_def)

lemma decimal_digits:
  assumes "y \<le> 9999"
  shows "1000 * (y div 1000 mod 10) + 100 * (y div 100 mod 10) + 10 * (y div 10 mod 10)
           + y mod 10 = (y::nat)"
proof -
  have e1: "y div 10 div 10 = y div 100" and e2: "y div 100 div 10 = y div 1000"
    by (simp_all add: div_mult2_eq[symmetric])
  have a: "y = 10 * (y div 10) + y mod 10"
    by (rule mult_div_mod_eq[symmetric])
  have "y div 10 = 10 * (y div 10 div 10) + y div 10 mod 10"
    by (rule mult_div_mod_eq[symmetric])
  then have b: "y div 10 = 10 * (y div 100) + y div 10 mod 10"
    unfolding e1 .
  have "y div 100 = 10 * (y div 100 div 10) + y div 100 mod 10"
    by (rule mult_div_mod_eq[symmetric])
  then have c: "y div 100 = 10 * (y div 1000) + y div 100 mod 10"
    unfolding e2 .
  have "y div 1000 < 10" using assms by simp
  then have d: "y div 1000 mod 10 = y div 1000" by simp
  from a b c d show ?thesis by linarith
qed

lemma match_Y_strftime:
  assumes "y \<le> 9999"
  shows "match_Y (digit_char (y div 1000) # digit_char (y div 100) # digit_char (y div 10) #
           digit_char y # rest) = Some (y, rest)"
proof -
  have "match_Y (digit_char (y div 1000) # digit_char (y div 100) # digit_char (y div 10) #
           digit_char y # rest) =
        Some (1000 * (y div 1000 mod 10) + 100 * (y div 100 mod 10) + 10 * (y div 10 mod 10)
              + y mod 10, rest)"
    by (simp only: match_Y.simps digit_char_props simp_thms if_True)
  then show ?thesis by (simp only: decimal_digits[OF assms])
qed

lemma match_m_strftime:
  assumes "1 \<le> m" "m \<le> 12"
  shows "match_m (digit_char (m div 10) # digit_char m # rest) = Some (m, rest)"
proof (cases "m < 10")
  case True
  with assms have "m div 10 = 0" "m mod 10 = m" "m mod 10 \<noteq> 0" by simp_all
  then have "digit_char (m div 10) = CHR ''0''" "nonzero_digit (digit_char m)"
    "digit_val (digit_char m) = m"
    by (simp_all add: digit_char_nonzero digit_char_props) (simp add: digit_char_def)
  then show ?thesis by simp
next
  case False
  with assms have "m = 10 \<or> m = 11 \<or> m = 12" by arith
  then show ?thesis
    by (elim disjE; simp add: digit_char_def digit_val_def digit_table_def)
qed

lemma match_d_strftime:
  assumes "1 \<le> d" "d \<le> 31"
  shows "match_d (digit_char (d div 10) # digit_char d # rest) = Some (d, rest)"
proof -
  consider "d < 10" | "10 \<le> d" "d < 20" | "20 \<le> d" "d < 30" | "d = 30" | "d = 31"
    using assms by arith
  then show ?thesis
  proof cases
    case 1
    with assms have "d div 10 = 0" "d mod 10 = d" "d mod 10 \<noteq> 0" by simp_all
    then have "digit_char (d div 10) = CHR ''0''" "nonzero_digit (digit_char d)"
      "digit_val (digit_char d) = d"
      by (simp_all add: digit_char_nonzero digit_char_props) (simp add: digit_char_def)
    then show ?thesis by simp
  next
    case 2
    then have q: "d div 10 = 1" by simp
    have "d = 10 * (d div 10) + d mod 10" by (rule mult_div_mod_eq[symmetric])
    with q have v: "10 + d mod 10 = d" by simp
    have "digit_char (d div 10) = CHR ''1''" unfolding q by (simp add: digit_char_def)
    with v show ?thesis by (simp add: digit_char_props digit_val_simps)
  next
    case 3
    then have q: "d div 10 = 2" by simp
    have "d = 10 * (d div 10) + d mod 10" by (rule mult_div_mod_eq[symmetric])
    with q have v: "20 + d mod 10 = d" by simp
    have "digit_char (d div 10) = CHR ''2''" unfolding q by (simp add: digit_char_def)
    with v show ?thesis by (simp add: digit_char_props digit_val_simps)
  next
    case 4
    then show ?thesis by (simp add: digit_char_def digit_val_def digit_table_def)
  next
    case 5
    then show ?thesis by (simp add: digit_char_def digit_val_def digit_table_def)
  qed
qed

text \<open>
  A date whose year is printed with four digits prints in the shape \<^verbatim>\<open>YYYY-MM-DD\<close>, and
  parses back to itself.
\<close>

lemma year_text_four:
  assumes "pad \<or> 1000 \<le> y"
  shows "year_text pad y =
     [digit_char (y div 1000), digit_char (y div 100), digit_char (y div 10), digit_char y]"
  using assms by (auto simp: year_text_def)

lemma strftime_four:
  assumes "pad \<or> 1000 \<le> year dt"
  shows "strftime_Ymd pad dt =
     [digit_char (year dt div 1000), digit_char (year dt div 100),
      digit_char (year dt div 10), digit_char (year dt), CHR ''-'',
      digit_char (month dt div 10), digit_char (month dt), CHR ''-'',
      digit_char (day dt div 10), digit_char (day dt)]"
  by (simp add: strftime_Ymd_def year_text_four[OF assms])

lemma iso_shape_strftime:
  assumes "pad \<or> 1000 \<le> year dt"
  shows "iso_shape (strftime_Ymd pad dt)"
  by (simp add: iso_shape_def strftime_four[OF assms] digit_char_props)

lemma strptime_strftime:
  assumes "valid_date dt" and "pad \<or> 1000 \<le> year dt"
  shows "strptime_Ymd (strftime_Ymd pad dt) = Inr dt"
proof -
  from assms have y: "year dt \<le> 9999" and m: "1 \<le> month dt" "month dt \<le> 12"
    and d: "1 \<le> day dt" "day dt \<le> days_in_month (year dt) (month dt)"
    by (simp_all add: valid_date_def)
  from d(2) days_in_month_bounds(2)[of "year dt" "month dt"] have d31: "day dt \<le> 31"
    by linarith
  have dd: "datetime_date (year dt) (month dt) (day dt) = Inr dt"
    using assms by (cases dt) (simp add: datetime_date_def)
  have my: "match_Y (strftime_Ymd pad dt) =
      Some (year dt, CHR ''-'' # digit_char (month dt div 10) # digit_char (month dt) #
        CHR ''-'' # [digit_char (day dt div 10), digit_char (day dt)])"
    unfolding strftime_four[OF assms(2)] by (rule match_Y_strftime[OF y])
  show ?thesis
    unfolding strptime_Ymd_def my
    by (simp only: option.case prod.case match_dash.simps if_True simp_thms
        match_m_strftime[OF m] match_d_strftime[OF d(1) d31] dd)
qed

text \<open>What \<^verbatim>\<open>strptime\<close> returns is a date of the calendar, and so is the day after it.\<close>

lemma strptime_valid:
  assumes "strptime_Ymd s = Inr dt"
  shows "valid_date dt"
  using assms
  by (auto simp: strptime_Ymd_def datetime_date_def split: option.splits prod.splits if_splits)

lemma date_max_iff: "dt = date_max \<longleftrightarrow> year dt = 9999 \<and> month dt = 12 \<and> day dt = 31"
  by (cases dt) (simp add: date_max_def)

lemma next_day_valid:
  assumes "valid_date dt" "dt \<noteq> date_max"
  shows "valid_date (next_day dt)"
proof -
  have b: "Suc 0 \<le> days_in_month y m" for y m
    using days_in_month_bounds(1)[of y m] by linarith
  have "month dt = 12 \<Longrightarrow> days_in_month (year dt) (month dt) = 31"
    by (simp add: days_in_month_def)
  with assms show ?thesis
    by (auto simp: valid_date_def next_day_def date_max_iff b)
qed

section \<open>Properties of the fetch operation\<close>

text \<open>Adding one day, and what both branches of the adjustment compute.\<close>

lemma plus_one_day:
  "plus_timedelta_days dt 1 = (if dt = date_max then Inl OverflowError else Inr (next_day dt))"
  by (simp add: One_nat_def[symmetric] del: One_nat_def) (simp add: numeral_eq_Suc)

lemma same_day_branch_eq: "same_day_branch pad end_date = add_one_day pad end_date"
  by (simp add: same_day_branch_def add_one_day_def plus_one_day split: sum.splits)

lemma range_branch_eq: "range_branch pad end_date = add_one_day pad end_date"
  by (simp add: range_branch_def add_one_day_def plus_one_day split: sum.splits)

lemma fetch_data_eq:
  "fetch_data P L ticker start_date end_date =
     (case add_one_day (pads_year L) end_date of
        Inl e \<Rightarrow> ([], Inl (DateError e))
      | Inr end_date' \<Rightarrow>
          ([\<lparr>symbol = ticker @ ''.JK'', start_arg = start_date, end_arg = end_date'\<rparr>],
           except_Exception (try_body P L
             \<lparr>symbol = ticker @ ''.JK'', start_arg = start_date, end_arg = end_date'\<rparr>)))"
  by (simp add: fetch_data_def Let_def same_day_branch_eq range_branch_eq split: sum.splits)

lemma add_one_day_parsed:
  assumes "strptime_Ymd end_date = Inr dt" "dt \<noteq> date_max"
  shows "add_one_day pad end_date = Inr (strftime_Ymd pad (next_day dt))"
  using assms by (simp add: add_one_day_def)

lemma rows_loop_map:
  "rows_loop L df acc = Inr results \<Longrightarrow>
     map Inr results = map Inr acc @ map (bar_of_row L) df"
proof (induction df arbitrary: acc)
  case Nil
  then show ?case by simp
next
  case (Cons row rest)
  then show ?case by (auto split: sum.splits)
qed


lemma fetch_data_parsed:
  assumes "strptime_Ymd end_date = Inr dt" "dt \<noteq> date_max"
  shows "fetch_data P L ticker start_date end_date =
     ([\<lparr>symbol = ticker @ ''.JK'', start_arg = start_date,
         end_arg = strftime_Ymd (pads_year L) (next_day dt)\<rparr>],
      except_Exception (try_body P L
        \<lparr>symbol = ticker @ ''.JK'', start_arg = start_date,
          end_arg = strftime_Ymd (pads_year L) (next_day dt)\<rparr>))"
  by (simp add: fetch_data_eq add_one_day_parsed[OF assms])

lemma try_body_rows:
  assumes "P q = Inr df"
  shows "try_body P L q =
     (case rows_loop L df [] of Inl e \<Rightarrow> Inl e | Inr results \<Rightarrow> Inr (PyList results))"
  using assms by (cases df) (simp_all add: try_body_def)

text \<open>
  A query is sent when the end date parses to a date with a next day, and not when the end
  date does not parse; the query sent decides the result.
\<close>

lemma fetch_data_unparsable:
  assumes "strptime_Ymd end_date = Inl e"
  shows "fetch_data P L ticker start_date end_date = ([], Inl (DateError e))"
  using assms by (simp add: fetch_data_eq add_one_day_def)

lemma fetch_data_sent:
  assumes "fst (fetch_data P L ticker start_date end_date) = [q]"
  shows "fetch_data P L ticker start_date end_date = ([q], except_Exception (try_body P L q))"
  using assms by (auto simp: fetch_data_eq split: sum.splits)

text \<open>
  The rows of the table become the bars, one each and in order; a bar has the six entries
  of the dictionary display.
\<close>

lemma rows_loop_total:
  assumes "\<forall>row \<in> set df. \<exists>bar. bar_of_row L row = Inr bar"
  shows "\<exists>results. rows_loop L df acc = Inr results"
  using assms
proof (induction df arbitrary: acc)
  case Nil
  then show ?case by simp
next
  case (Cons row rest)
  then obtain bar where "bar_of_row L row = Inr bar" by auto
  with Cons show ?case by simp
qed

lemma rows_loop_nth:
  assumes "rows_loop L df [] = Inr bars"
  shows "length bars = length df" and "i < length df \<Longrightarrow> bar_of_row L (df ! i) = Inr (bars ! i)"
proof -
  from rows_loop_map[OF assms]
  have m: "map Inr bars = map (bar_of_row L) df" by simp
  then show l: "length bars = length df" by (metis length_map)
  assume "i < length df"
  with m l show "bar_of_row L (df ! i) = Inr (bars ! i)" by (metis nth_map)
qed


lemma fetch_data_bars:
  assumes "fst (fetch_data P L ticker start_date end_date) = [q]" and "P q = Inr df"
    and "snd (fetch_data P L ticker start_date end_date) = Inr (PyList bars)"
  shows "rows_loop L df [] = Inr bars"
  using assms(3)
  by (simp add: fetch_data_sent[OF assms(1)] try_body_rows[where P = P, OF assms(2)]
      except_Exception_def split: sum.splits if_splits)

text \<open>
  With at least three arguments after the script's name, the run is the call of
  \<open>fetch_data\<close> on them; with fewer, no query is sent.
\<close>

lemma main_fetch:
  assumes "4 \<le> length argv"
  shows "main P L argv =
     (case fetch_data P L (argv ! 1) (argv ! 2) (argv ! 3) of
        (qs, Inl e) \<Rightarrow> \<lparr>queries = qs, stdout = [], ending = UncaughtException e\<rparr>
      | (qs, Inr data) \<Rightarrow> \<lparr>queries = qs, stdout = [data], ending = Exit 0\<rparr>)"
  using assms by (simp add: main_def Let_def)

lemma main_queries:
  assumes "queries (main P L argv) = [q]"
  shows "4 \<le> length argv" and "fst (fetch_data P L (argv ! 1) (argv ! 2) (argv ! 3)) = [q]"
proof -
  show l: "4 \<le> length argv"
  proof (rule ccontr)
    assume "\<not> 4 \<le> length argv"
    then have "queries (main P L argv) = []" by (simp add: main_def)
    with assms show False by simp
  qed
  from assms show "fst (fetch_data P L (argv ! 1) (argv ! 2) (argv ! 3)) = [q]"
    unfolding main_fetch[OF l] by (auto split: prod.splits sum.splits)
qed

section \<open>The definitions on the sample data\<close>

lemma parse_jan_2: "strptime_Ymd ''2024-01-02'' = Inr \<lparr>year = 2024, month = 1, day = 2\<rparr>"
  by code_simp

lemma parse_jan_5: "strptime_Ymd ''2024-01-05'' = Inr \<lparr>year = 2024, month = 1, day = 5\<rparr>"
  by code_simp

lemma parse_tomorrow: "strptime_Ymd ''tomorrow'' = Inl ValueError"
  by code_simp

lemma print_jan:
  "strftime_Ymd pad (next_day \<lparr>year = 2024, month = 1, day = 2\<rparr>) = ''2024-01-03''"
  "strftime_Ymd pad (next_day \<lparr>year = 2024, month = 1, day = 5\<rparr>) = ''2024-01-06''"
  "strftime_Ymd pad \<lparr>year = 2024, month = 1, day = 2\<rparr> = ''2024-01-02''"
  "strftime_Ymd pad \<lparr>year = 2024, month = 1, day = 3\<rparr> = ''2024-01-03''"
  by (simp_all add: strftime_Ymd_def year_text_def next_day_def days_in_month_def
      digit_char_def)

lemma not_max_jan: "\<lparr>year = 2024, month = 1, day = d\<rparr> \<noteq> date_max"
  by (simp add: date_max_def)

lemma sample_sent:
  "fst (fetch_data P L ticker start_date ''2024-01-02'') =
     [\<lparr>symbol = ticker @ ''.JK'', start_arg = start_date, end_arg = ''2024-01-03''\<rparr>]"
  "fst (fetch_data P L ticker start_date ''2024-01-05'') =
     [\<lparr>symbol = ticker @ ''.JK'', start_arg = start_date, end_arg = ''2024-01-06''\<rparr>]"
  by (simp_all add: fetch_data_parsed[OF parse_jan_2 not_max_jan]
      fetch_data_parsed[OF parse_jan_5 not_max_jan] print_jan del: One_nat_def)

lemma sample_argv_nth:
  "length (sample_argv a) = 4" "4 \<le> length (sample_argv a)" "sample_argv a ! 1 = ''BBCA''"
  "sample_argv a ! 2 = ''2024-01-02''" "sample_argv a ! 3 = a"
  by (simp_all add: sample_argv_def)

lemma sample_bars:
  "bar_of_row sample_library row_jan_2 = Inr bar_jan_2"
  "bar_of_row sample_library row_jan_3 = Inr bar_jan_3"
  by (simp_all add: bar_of_row_def row_jan_2_def row_jan_3_def bar_jan_2_def bar_jan_3_def
      sample_library_def print_jan del: One_nat_def)

lemma sample_rows:
  "rows_loop sample_library [row_jan_2, row_jan_3] [] = Inr [bar_jan_2, bar_jan_3]"
  "rows_loop sample_library [row_jan_2, row_missing_date, row_jan_3] [] =
     Inl (Raised True ''NaTType does not support strftime'')"
  by (simp_all add: sample_bars) (simp add: bar_of_row_def row_missing_date_def)

lemma sample_fetch:
  "fetch_data sample_provider sample_library ''BBCA'' ''2024-01-02'' ''2024-01-05'' =
     ([\<lparr>symbol = ''BBCA.JK'', start_arg = ''2024-01-02'', end_arg = ''2024-01-06''\<rparr>],
      Inr (PyList [bar_jan_2, bar_jan_3]))"
proof -
  let ?q = "\<lparr>symbol = ''BBCA.JK'', start_arg = ''2024-01-02'', end_arg = ''2024-01-06''\<rparr>"
  have s: "fst (fetch_data sample_provider sample_library ''BBCA'' ''2024-01-02''
      ''2024-01-05'') = [?q]"
    using sample_sent(2)[of sample_provider sample_library "''BBCA''" "''2024-01-02''"]
    by simp
  have p: "sample_provider ?q = Inr [row_jan_2, row_jan_3]"
    by (simp add: sample_provider_def)
  show ?thesis
    unfolding fetch_data_sent[OF s] try_body_rows[where P = sample_provider, OF p]
      sample_rows(1)
    by (simp add: except_Exception_def)
qed

lemma raising_fetch:
  "fetch_data (raising_provider e) L ''BBCA'' ''2024-01-02'' ''2024-01-05'' =
     ([\<lparr>symbol = ''BBCA.JK'', start_arg = ''2024-01-02'', end_arg = ''2024-01-06''\<rparr>],
      except_Exception (Inl e))"
proof -
  let ?q = "\<lparr>symbol = ''BBCA.JK'', start_arg = ''2024-01-02'', end_arg = ''2024-01-06''\<rparr>"
  have s: "fst (fetch_data (raising_provider e) L ''BBCA'' ''2024-01-02'' ''2024-01-05'') = [?q]"
    using sample_sent(2)[of "raising_provider e" L "''BBCA''" "''2024-01-02''"] by simp
  show ?thesis
    unfolding fetch_data_sent[OF s] by (simp add: try_body_def raising_provider_def)
qed

section \<open>The claims\<close>

text \<open>
  Claim C1, as amended. Let \<open>fetch_data\<close> reach the provider, \<open>q\<close> being the query it sends;
  it does when the end date is one that \<^verbatim>\<open>strptime\<close> accepts, as a date other than
  9999-12-31. Then an exception that is an instance of \<^verbatim>\<open>Exception\<close>, raised by the provider
  or by the conversion of a row, is caught, and \<open>fetch_data\<close> returns the dictionary with the
  one key \<^verbatim>\<open>error\<close> and the exception's text; and when every exception the \<^verbatim>\<open>try\<close> block
  raises is such an instance, \<open>fetch_data\<close> returns a value: no exception leaves it.
\<close>

theorem fetch_data_catches_exceptions:
  "(fst (fetch_data P L ticker start_date end_date) = [q] \<and> P q = Inl x \<and> is_Exception x \<longrightarrow>
      snd (fetch_data P L ticker start_date end_date) = Inr (PyDict [(''error'', PyStr (str x))]))
   \<and> (fst (fetch_data P L ticker start_date end_date) = [q] \<and> P q = Inr df \<and>
       rows_loop L df [] = Inl x \<and> is_Exception x \<longrightarrow>
      snd (fetch_data P L ticker start_date end_date) = Inr (PyDict [(''error'', PyStr (str x))]))
   \<and> (fst (fetch_data P L ticker start_date end_date) = [q] \<and>
       (\<forall>y. try_body P L q = Inl y \<longrightarrow> is_Exception y) \<longrightarrow>
      (\<exists>v. snd (fetch_data P L ticker start_date end_date) = Inr v))
   \<and> (strptime_Ymd end_date = Inr dt \<and> dt \<noteq> date_max \<longrightarrow>
      (\<exists>q'. fst (fetch_data P L ticker start_date end_date) = [q']))"
proof (intro conjI impI)
  assume a: "fst (fetch_data P L ticker start_date end_date) = [q] \<and> P q = Inl x \<and>
    is_Exception x"
  then show "snd (fetch_data P L ticker start_date end_date) =
      Inr (PyDict [(''error'', PyStr (str x))])"
    by (simp add: fetch_data_sent[of P L ticker start_date end_date q] try_body_def
        except_Exception_def)
next
  assume a: "fst (fetch_data P L ticker start_date end_date) = [q] \<and> P q = Inr df \<and>
       rows_loop L df [] = Inl x \<and> is_Exception x"
  then have "try_body P L q = Inl x" by (simp add: try_body_rows[where P = P])
  with a show "snd (fetch_data P L ticker start_date end_date) =
      Inr (PyDict [(''error'', PyStr (str x))])"
    by (simp add: fetch_data_sent[of P L ticker start_date end_date q] except_Exception_def)
next
  assume a: "fst (fetch_data P L ticker start_date end_date) = [q] \<and>
       (\<forall>y. try_body P L q = Inl y \<longrightarrow> is_Exception y)"
  then show "\<exists>v. snd (fetch_data P L ticker start_date end_date) = Inr v"
    by (auto simp: fetch_data_sent[of P L ticker start_date end_date q] except_Exception_def
        split: sum.splits)
next
  assume "strptime_Ymd end_date = Inr dt \<and> dt \<noteq> date_max"
  then show "\<exists>q'. fst (fetch_data P L ticker start_date end_date) = [q']"
    by (simp add: fetch_data_parsed)
qed

theorem fetch_data_catches_exceptions_witness:
  "fst (fetch_data (raising_provider (Raised True ''Connection reset by peer'')) sample_library
      ''BBCA'' ''2024-01-02'' ''2024-01-05'') =
     [\<lparr>symbol = ''BBCA.JK'', start_arg = ''2024-01-02'', end_arg = ''2024-01-06''\<rparr>]
   \<and> raising_provider (Raised True ''Connection reset by peer'')
       \<lparr>symbol = ''BBCA.JK'', start_arg = ''2024-01-02'', end_arg = ''2024-01-06''\<rparr> =
     Inl (Raised True ''Connection reset by peer'')
   \<and> is_Exception (Raised True ''Connection reset by peer'')
   \<and> snd (fetch_data (raising_provider (Raised True ''Connection reset by peer''))
         sample_library ''BBCA'' ''2024-01-02'' ''2024-01-05'') =
       Inr (PyDict [(''error'', PyStr ''Connection reset by peer'')])
   \<and> broken_table_provider
       \<lparr>symbol = ''BBCA.JK'', start_arg = ''2024-01-02'', end_arg = ''2024-01-06''\<rparr> =
     Inr [row_jan_2, row_missing_date, row_jan_3]
   \<and> rows_loop sample_library [row_jan_2, row_missing_date, row_jan_3] [] =
       Inl (Raised True ''NaTType does not support strftime'')
   \<and> snd (fetch_data broken_table_provider sample_library ''BBCA'' ''2024-01-02''
         ''2024-01-05'') =
       Inr (PyDict [(''error'', PyStr ''NaTType does not support strftime'')])"
proof -
  let ?e = "Raised True ''Connection reset by peer''"
  let ?n = "Raised True ''NaTType does not support strftime''"
  let ?q = "\<lparr>symbol = ''BBCA.JK'', start_arg = ''2024-01-02'', end_arg = ''2024-01-06''\<rparr>"
  have s: "fst (fetch_data P L ''BBCA'' ''2024-01-02'' ''2024-01-05'') = [?q]" for P L
    using sample_sent(2)[of P L "''BBCA''" "''2024-01-02''"] by simp
  have a: "raising_provider ?e ?q = Inl ?e" by (simp add: raising_provider_def)
  have b: "broken_table_provider ?q = Inr [row_jan_2, row_missing_date, row_jan_3]"
    by (simp add: broken_table_provider_def)
  have x: "is_Exception ?e" "is_Exception ?n" by simp_all
  from fetch_data_catches_exceptions[where P = "raising_provider ?e" and L = sample_library
      and ticker = "''BBCA''" and start_date = "''2024-01-02''" and end_date = "''2024-01-05''"
      and q = ?q and x = ?e] s[of "raising_provider ?e" sample_library] a x
  have 1: "snd (fetch_data (raising_provider ?e) sample_library ''BBCA'' ''2024-01-02''
      ''2024-01-05'') = Inr (PyDict [(''error'', PyStr ''Connection reset by peer'')])"
    by simp
  from fetch_data_catches_exceptions[where P = broken_table_provider and L = sample_library
      and ticker = "''BBCA''" and start_date = "''2024-01-02''" and end_date = "''2024-01-05''"
      and q = ?q and x = ?n and df = "[row_jan_2, row_missing_date, row_jan_3]"]
    s[of broken_table_provider sample_library] b x sample_rows(2)
  have 2: "snd (fetch_data broken_table_provider sample_library ''BBCA'' ''2024-01-02''
      ''2024-01-05'') = Inr (PyDict [(''error'', PyStr ''NaTType does not support strftime'')])"
    by simp
  from 1 2 s[of "raising_provider ?e" sample_library] a b x sample_rows(2)
  show ?thesis by simp
qed

text \<open>
  The claim as stated, for every input, fails: the end date is parsed before the \<^verbatim>\<open>try\<close>
  block, so for an end date that \<^verbatim>\<open>strptime\<close> rejects the \<^verbatim>\<open>ValueError\<close> leaves
  \<open>fetch_data\<close> and no query is sent; and \<^verbatim>\<open>except Exception\<close> lets an exception pass
  that derives from \<^verbatim>\<open>BaseException\<close> only.
\<close>

theorem fetch_data_propagates_counterexample:
  "fetch_data sample_provider sample_library ''BBCA'' ''2024-01-02'' ''tomorrow'' =
     ([], Inl (DateError ValueError))
   \<and> snd (fetch_data (raising_provider (Raised False ''KeyboardInterrupt'')) sample_library
         ''BBCA'' ''2024-01-02'' ''2024-01-05'') =
     Inl (Uncaught (Raised False ''KeyboardInterrupt''))"
  by (simp add: fetch_data_unparsable[OF parse_tomorrow] raising_fetch except_Exception_def)

text \<open>
  Claim C2, as amended. For every start date, and every end date that \<^verbatim>\<open>strptime\<close> accepts
  as a date \<open>dt\<close> other than 9999-12-31, \<open>fetch_data\<close> sends one query, whose start is the start
  date as given and whose end is what \<^verbatim>\<open>strftime\<close> prints for the day after \<open>dt\<close>, the day
  whose ordinal is one more. Where that day's year is printed with four digits, the end is a
  text of the shape \<^verbatim>\<open>YYYY-MM-DD\<close> that parses back to that day. This covers every end date
  that is the \<^verbatim>\<open>YYYY-MM-DD\<close> text, the year padded with zeros, of a date of the calendar
  before 9999-12-31. For the dates
  2024-01-02 and 2024-01-02 the query ends at 2024-01-03, and for 2024-01-02 and 2024-01-05
  at 2024-01-06.
\<close>

theorem fetch_data_end_boundary:
  "(strptime_Ymd end_date = Inr dt \<and> dt \<noteq> date_max \<longrightarrow>
      fst (fetch_data P L ticker start_date end_date) =
        [\<lparr>symbol = ticker @ ''.JK'', start_arg = start_date,
          end_arg = strftime_Ymd (pads_year L) (next_day dt)\<rparr>]
      \<and> toordinal (next_day dt) = toordinal dt + 1)
   \<and> (strptime_Ymd end_date = Inr dt \<and> dt \<noteq> date_max \<and>
       (pads_year L \<or> 1000 \<le> year (next_day dt)) \<longrightarrow>
      iso_shape (strftime_Ymd (pads_year L) (next_day dt))
      \<and> strptime_Ymd (strftime_Ymd (pads_year L) (next_day dt)) = Inr (next_day dt))
   \<and> (valid_date d \<and> d \<noteq> date_max \<longrightarrow>
      fst (fetch_data P L ticker start_date (strftime_Ymd True d)) =
        [\<lparr>symbol = ticker @ ''.JK'', start_arg = start_date,
          end_arg = strftime_Ymd (pads_year L) (next_day d)\<rparr>])
   \<and> fst (fetch_data P L ticker ''2024-01-02'' ''2024-01-02'') =
        [\<lparr>symbol = ticker @ ''.JK'', start_arg = ''2024-01-02'', end_arg = ''2024-01-03''\<rparr>]
   \<and> fst (fetch_data P L ticker ''2024-01-02'' ''2024-01-05'') =
        [\<lparr>symbol = ticker @ ''.JK'', start_arg = ''2024-01-02'', end_arg = ''2024-01-06''\<rparr>]"
proof (intro conjI impI)
  assume a: "strptime_Ymd end_date = Inr dt \<and> dt \<noteq> date_max"
  then have v: "valid_date dt" by (auto dest: strptime_valid)
  from a show "fst (fetch_data P L ticker start_date end_date) =
        [\<lparr>symbol = ticker @ ''.JK'', start_arg = start_date,
          end_arg = strftime_Ymd (pads_year L) (next_day dt)\<rparr>]"
    by (simp add: fetch_data_parsed)
  from v show "toordinal (next_day dt) = toordinal dt + 1" by (rule toordinal_next_day)
next
  assume a: "strptime_Ymd end_date = Inr dt \<and> dt \<noteq> date_max \<and>
       (pads_year L \<or> 1000 \<le> year (next_day dt))"
  then have v: "valid_date (next_day dt)" by (auto dest: strptime_valid intro: next_day_valid)
  from a have p: "pads_year L \<or> 1000 \<le> year (next_day dt)" by simp
  from p show "iso_shape (strftime_Ymd (pads_year L) (next_day dt))"
    by (rule iso_shape_strftime)
  from v p show "strptime_Ymd (strftime_Ymd (pads_year L) (next_day dt)) = Inr (next_day dt)"
    by (rule strptime_strftime)
next
  assume a: "valid_date d \<and> d \<noteq> date_max"
  then have "strptime_Ymd (strftime_Ymd True d) = Inr d"
    by (simp add: strptime_strftime)
  with a show "fst (fetch_data P L ticker start_date (strftime_Ymd True d)) =
        [\<lparr>symbol = ticker @ ''.JK'', start_arg = start_date,
          end_arg = strftime_Ymd (pads_year L) (next_day d)\<rparr>]"
    by (simp add: fetch_data_parsed)
next
  show "fst (fetch_data P L ticker ''2024-01-02'' ''2024-01-02'') =
        [\<lparr>symbol = ticker @ ''.JK'', start_arg = ''2024-01-02'', end_arg = ''2024-01-03''\<rparr>]"
    by (rule sample_sent(1))
  show "fst (fetch_data P L ticker ''2024-01-02'' ''2024-01-05'') =
        [\<lparr>symbol = ticker @ ''.JK'', start_arg = ''2024-01-02'', end_arg = ''2024-01-06''\<rparr>]"
    by (rule sample_sent(2))
qed

theorem fetch_data_end_boundary_witness:
  "strptime_Ymd ''2024-02-29'' = Inr \<lparr>year = 2024, month = 2, day = 29\<rparr>
   \<and> \<lparr>year = 2024, month = 2, day = 29\<rparr> \<noteq> date_max
   \<and> valid_date \<lparr>year = 2024, month = 2, day = 29\<rparr>
   \<and> 1000 \<le> year (next_day \<lparr>year = 2024, month = 2, day = 29\<rparr>)
   \<and> fst (fetch_data sample_provider sample_library ''BBCA'' ''2024-02-01'' ''2024-02-29'') =
        [\<lparr>symbol = ''BBCA.JK'', start_arg = ''2024-02-01'', end_arg = ''2024-03-01''\<rparr>]
   \<and> toordinal \<lparr>year = 2024, month = 3, day = 1\<rparr> =
        toordinal \<lparr>year = 2024, month = 2, day = 29\<rparr> + 1
   \<and> strptime_Ymd ''2024-03-01'' = Inr \<lparr>year = 2024, month = 3, day = 1\<rparr>"
proof -
  have p: "strptime_Ymd ''2024-02-29'' = Inr \<lparr>year = 2024, month = 2, day = 29\<rparr>"
    by code_simp
  have n: "\<lparr>year = 2024, month = 2, day = 29\<rparr> \<noteq> date_max"
    by (simp add: date_max_def)
  have v: "valid_date \<lparr>year = 2024, month = 2, day = 29\<rparr>" by code_simp
  have "next_day \<lparr>year = 2024, month = 2, day = 29\<rparr> = \<lparr>year = 2024, month = 3, day = 1\<rparr>"
    by code_simp
  then have nd: "next_day \<lparr>year = 2024, month = 2, day = 29\<rparr> =
      \<lparr>year = 2024, month = 3, day = Suc 0\<rparr>" by simp
  have "strftime_Ymd False \<lparr>year = 2024, month = 3, day = 1\<rparr> = ''2024-03-01''" by code_simp
  then have s: "strftime_Ymd False \<lparr>year = 2024, month = 3, day = Suc 0\<rparr> = ''2024-03-01''"
    by simp
  have l: "pads_year sample_library = False" by (simp add: sample_library_def)
  from fetch_data_end_boundary[of "''2024-02-29''" "\<lparr>year = 2024, month = 2, day = 29\<rparr>"
      sample_provider sample_library "''BBCA''" "''2024-02-01''"
      "\<lparr>year = 2024, month = 2, day = 29\<rparr>"] p n v
  show ?thesis by (simp add: nd s l)
qed

text \<open>
  The claim as stated, for every end date of the form \<^verbatim>\<open>YYYY-MM-DD\<close>, fails: for the last
  date of the \<^verbatim>\<open>datetime\<close> type the addition raises \<^verbatim>\<open>OverflowError\<close>, and a text of that
  form that names no day of the calendar is rejected by \<^verbatim>\<open>strptime\<close>; in both cases no query
  is sent.
\<close>

theorem fetch_data_end_boundary_counterexample:
  "fetch_data sample_provider sample_library ''BBCA'' ''9999-12-31'' ''9999-12-31'' =
     ([], Inl (DateError OverflowError))
   \<and> fetch_data sample_provider sample_library ''BBCA'' ''2024-02-01'' ''2024-02-30'' =
     ([], Inl (DateError ValueError))"
  by code_simp

text \<open>
  Claim C3, as amended. With fewer than three arguments after the script's name, the run
  prints the usage error and exits with status 1. With at least three, when \<open>fetch_data\<close>
  returns a value the run prints it and exits with status 0, also when the value is an error
  dictionary; and \<open>fetch_data\<close> returns a value when the end date is one that \<^verbatim>\<open>strptime\<close>
  accepts, other than 9999-12-31, and every exception the \<^verbatim>\<open>try\<close> block raises is an
  instance of \<^verbatim>\<open>Exception\<close>.
\<close>

theorem main_exit_status:
  "(length argv < 4 \<longrightarrow>
      main P L argv = \<lparr>queries = [], stdout = [usage_error], ending = Exit 1\<rparr>)
   \<and> (4 \<le> length argv \<and> fetch_data P L (argv ! 1) (argv ! 2) (argv ! 3) = (qs, Inr data) \<longrightarrow>
      main P L argv = \<lparr>queries = qs, stdout = [data], ending = Exit 0\<rparr>)
   \<and> (4 \<le> length argv \<and> strptime_Ymd (argv ! 3) = Inr dt \<and> dt \<noteq> date_max \<and>
       (\<forall>q x. try_body P L q = Inl x \<longrightarrow> is_Exception x) \<longrightarrow>
      ending (main P L argv) = Exit 0 \<and>
      (\<exists>data. snd (fetch_data P L (argv ! 1) (argv ! 2) (argv ! 3)) = Inr data \<and>
         stdout (main P L argv) = [data]))"
proof (intro conjI impI)
  show "main P L argv = \<lparr>queries = [], stdout = [usage_error], ending = Exit 1\<rparr>"
    if "length argv < 4"
    using that by (simp add: main_def)
  show "main P L argv = \<lparr>queries = qs, stdout = [data], ending = Exit 0\<rparr>"
    if "4 \<le> length argv \<and> fetch_data P L (argv ! 1) (argv ! 2) (argv ! 3) = (qs, Inr data)"
    using that by (simp add: main_fetch)
next
  assume a: "4 \<le> length argv \<and> strptime_Ymd (argv ! 3) = Inr dt \<and> dt \<noteq> date_max \<and>
       (\<forall>q x. try_body P L q = Inl x \<longrightarrow> is_Exception x)"
  let ?q = "\<lparr>symbol = argv ! 1 @ ''.JK'', start_arg = argv ! 2,
               end_arg = strftime_Ymd (pads_year L) (next_day dt)\<rparr>"
  from a have p: "strptime_Ymd (argv ! 3) = Inr dt" "dt \<noteq> date_max" by simp_all
  from a have "\<exists>v. except_Exception (try_body P L ?q) = Inr v"
    by (auto simp: except_Exception_def split: sum.splits)
  then obtain v where v: "except_Exception (try_body P L ?q) = Inr v" ..
  have f: "fetch_data P L (argv ! 1) (argv ! 2) (argv ! 3) = ([?q], Inr v)"
    by (simp only: fetch_data_parsed[OF p] v)
  from a have m: "main P L argv = \<lparr>queries = [?q], stdout = [v], ending = Exit 0\<rparr>"
    by (simp add: main_fetch f del: One_nat_def)
  from m show "ending (main P L argv) = Exit 0" by simp
  from m f show "\<exists>data. snd (fetch_data P L (argv ! 1) (argv ! 2) (argv ! 3)) = Inr data \<and>
         stdout (main P L argv) = [data]" by simp
qed

theorem main_exit_status_witness:
  "length [''fetch_yfinance.py'', ''BBCA''] < 4
   \<and> main sample_provider sample_library [''fetch_yfinance.py'', ''BBCA''] =
       \<lparr>queries = [], stdout = [PyDict [(''error'',
            PyStr ''Usage: python fetch_yfinance.py TICKER START_DATE END_DATE'')]],
         ending = Exit 1\<rparr>
   \<and> 4 \<le> length (sample_argv ''2024-01-05'')
   \<and> main (raising_provider (Raised True ''Connection reset by peer'')) sample_library
        (sample_argv ''2024-01-05'') =
       \<lparr>queries = [\<lparr>symbol = ''BBCA.JK'', start_arg = ''2024-01-02'',
                    end_arg = ''2024-01-06''\<rparr>],
         stdout = [PyDict [(''error'', PyStr ''Connection reset by peer'')]],
         ending = Exit 0\<rparr>
   \<and> main sample_provider sample_library (sample_argv ''2024-01-05'') =
       \<lparr>queries = [\<lparr>symbol = ''BBCA.JK'', start_arg = ''2024-01-02'',
                    end_arg = ''2024-01-06''\<rparr>],
         stdout = [PyList [bar_jan_2, bar_jan_3]], ending = Exit 0\<rparr>"
proof -
  let ?P = "raising_provider (Raised True ''Connection reset by peer'')"
  let ?q = "\<lparr>symbol = ''BBCA.JK'', start_arg = ''2024-01-02'', end_arg = ''2024-01-06''\<rparr>"
  let ?d = "PyDict [(''error'', PyStr ''Connection reset by peer'')] :: real pyval"
  have f: "fetch_data ?P sample_library (sample_argv ''2024-01-05'' ! 1)
      (sample_argv ''2024-01-05'' ! 2) (sample_argv ''2024-01-05'' ! 3) = ([?q], Inr ?d)"
    unfolding sample_argv_nth by (simp add: raising_fetch except_Exception_def)
  have g: "fetch_data sample_provider sample_library (sample_argv ''2024-01-05'' ! 1)
      (sample_argv ''2024-01-05'' ! 2) (sample_argv ''2024-01-05'' ! 3) =
      ([?q], Inr (PyList [bar_jan_2, bar_jan_3]))"
    unfolding sample_argv_nth by (rule sample_fetch)
  have l: "length [''fetch_yfinance.py'', ''BBCA''] < 4" by simp
  from main_exit_status[of "[''fetch_yfinance.py'', ''BBCA'']" sample_provider sample_library]
  have 1: "main sample_provider sample_library [''fetch_yfinance.py'', ''BBCA''] =
       \<lparr>queries = [], stdout = [PyDict [(''error'',
            PyStr ''Usage: python fetch_yfinance.py TICKER START_DATE END_DATE'')]],
         ending = Exit 1\<rparr>"
    by (simp add: usage_error_def)
  from main_exit_status[of "sample_argv ''2024-01-05''" ?P sample_library "[?q]" ?d] f
    sample_argv_nth(2)[of "''2024-01-05''"]
  have 2: "main ?P sample_library (sample_argv ''2024-01-05'') =
       \<lparr>queries = [?q], stdout = [?d], ending = Exit 0\<rparr>"
    by blast
  from main_exit_status[of "sample_argv ''2024-01-05''" sample_provider sample_library "[?q]"
      "PyList [bar_jan_2, bar_jan_3]"] g sample_argv_nth(2)[of "''2024-01-05''"]
  have 3: "main sample_provider sample_library (sample_argv ''2024-01-05'') =
       \<lparr>queries = [?q], stdout = [PyList [bar_jan_2, bar_jan_3]], ending = Exit 0\<rparr>"
    by blast
  from l 1 2 3 sample_argv_nth(2)[of "''2024-01-05''"] show ?thesis by simp
qed

text \<open>
  The claim as stated, for every run with at least three arguments, fails: with an end
  date that \<^verbatim>\<open>strptime\<close> rejects, the run prints nothing and ends by the uncaught
  \<^verbatim>\<open>ValueError\<close>, not with status 0.
\<close>

theorem main_exit_status_counterexample:
  "main sample_provider sample_library (sample_argv ''tomorrow'') =
     \<lparr>queries = [], stdout = [], ending = UncaughtException (DateError ValueError)\<rparr>"
  by (simp only: main_fetch[OF sample_argv_nth(2)] sample_argv_nth
      fetch_data_unparsable[OF parse_tomorrow] prod.case sum.case)

text \<open>
  Claim C4. Whatever the ticker and the dates, every query \<open>fetch_data\<close> sends carries the
  ticker followed by \<^verbatim>\<open>.JK\<close>, and the ticker is not looked at otherwise: the empty ticker
  and a ticker that already ends in the suffix get it too. One query is sent when the end
  date is one that \<^verbatim>\<open>strptime\<close> accepts, other than 9999-12-31. The ticker \<^verbatim>\<open>BBCA\<close> is
  queried as \<^verbatim>\<open>BBCA.JK\<close>.
\<close>

theorem fetch_data_symbol_suffix:
  "(\<forall>q \<in> set (fst (fetch_data P L ticker start_date end_date)). symbol q = ticker @ ''.JK'')
   \<and> (strptime_Ymd end_date = Inr dt \<and> dt \<noteq> date_max \<longrightarrow>
        map symbol (fst (fetch_data P L ticker start_date end_date)) = [ticker @ ''.JK''])
   \<and> map symbol (fst (fetch_data P L ''BBCA'' ''2024-01-02'' ''2024-01-05'')) = [''BBCA.JK'']"
proof (intro conjI impI)
  show "\<forall>q \<in> set (fst (fetch_data P L ticker start_date end_date)). symbol q = ticker @ ''.JK''"
    by (simp add: fetch_data_eq split: sum.splits)
  show "map symbol (fst (fetch_data P L ticker start_date end_date)) = [ticker @ ''.JK'']"
    if "strptime_Ymd end_date = Inr dt \<and> dt \<noteq> date_max"
    using that by (simp add: fetch_data_parsed)
  show "map symbol (fst (fetch_data P L ''BBCA'' ''2024-01-02'' ''2024-01-05'')) = [''BBCA.JK'']"
    by (simp add: sample_sent(2))
qed

theorem fetch_data_symbol_suffix_witness:
  "strptime_Ymd ''2024-01-05'' = Inr \<lparr>year = 2024, month = 1, day = 5\<rparr>
   \<and> \<lparr>year = 2024, month = 1, day = 5\<rparr> \<noteq> date_max
   \<and> fst (fetch_data sample_provider sample_library '''' ''2024-01-02'' ''2024-01-05'') =
       [\<lparr>symbol = ''.JK'', start_arg = ''2024-01-02'', end_arg = ''2024-01-06''\<rparr>]
   \<and> map symbol (fst (fetch_data sample_provider sample_library ''BBCA.JK'' ''2024-01-02''
         ''2024-01-05'')) = [''BBCA.JK.JK'']"
proof -
  have q: "fst (fetch_data sample_provider sample_library '''' ''2024-01-02'' ''2024-01-05'') =
       [\<lparr>symbol = ''.JK'', start_arg = ''2024-01-02'', end_arg = ''2024-01-06''\<rparr>]"
    using sample_sent(2)[of sample_provider sample_library "''''" "''2024-01-02''"] by simp
  from fetch_data_symbol_suffix[of sample_provider sample_library "''BBCA.JK''"
      "''2024-01-02''" "''2024-01-05''" "\<lparr>year = 2024, month = 1, day = 5\<rparr>"]
    parse_jan_5 not_max_jan[of 5] q
  show ?thesis by (simp del: One_nat_def)
qed

text \<open>
  Claim C5. When the provider answers the query that \<open>fetch_data\<close> sends with a table of
  no rows, \<open>fetch_data\<close> returns the empty list, and not an error dictionary.
\<close>

theorem fetch_data_empty_table:
  assumes "fst (fetch_data P L ticker start_date end_date) = [q]" and "P q = Inr []"
  shows "snd (fetch_data P L ticker start_date end_date) = Inr (PyList [])"
  using assms(2) by (simp add: fetch_data_sent[OF assms(1)] try_body_def except_Exception_def)

theorem fetch_data_empty_table_witness:
  "fst (fetch_data sample_provider sample_library ''XXXX'' ''2024-01-02'' ''2024-01-05'') =
     [\<lparr>symbol = ''XXXX.JK'', start_arg = ''2024-01-02'', end_arg = ''2024-01-06''\<rparr>]
   \<and> sample_provider
       \<lparr>symbol = ''XXXX.JK'', start_arg = ''2024-01-02'', end_arg = ''2024-01-06''\<rparr> = Inr []
   \<and> snd (fetch_data sample_provider sample_library ''XXXX'' ''2024-01-02'' ''2024-01-05'') =
        Inr (PyList [])"
proof -
  let ?q = "\<lparr>symbol = ''XXXX.JK'', start_arg = ''2024-01-02'', end_arg = ''2024-01-06''\<rparr>"
  have s: "fst (fetch_data sample_provider sample_library ''XXXX'' ''2024-01-02''
      ''2024-01-05'') = [?q]"
    using sample_sent(2)[of sample_provider sample_library "''XXXX''" "''2024-01-02''"] by simp
  have e: "sample_provider ?q = Inr []" by (simp add: sample_provider_def)
  from fetch_data_empty_table[where P = sample_provider and L = sample_library, OF s e] s e
  show ?thesis by simp
qed



text \<open>
  Claim C7, as amended. When a run queries the provider and the provider raises an
  exception that is an instance of \<^verbatim>\<open>Exception\<close>, the run exits with status 0 and prints
  the dictionary with the one key \<^verbatim>\<open>error\<close> and the exception's text \<^verbatim>\<open>str(e)\<close>,
  whatever that text is.
\<close>

theorem main_provider_exception:
  assumes "queries (main P L argv) = [q]" and "P q = Inl e" and "is_Exception e"
  shows "main P L argv =
     \<lparr>queries = [q], stdout = [PyDict [(''error'', PyStr (str e))]], ending = Exit 0\<rparr>"
proof -
  note m = main_queries[OF assms(1)]
  have "fetch_data P L (argv ! 1) (argv ! 2) (argv ! 3) =
      ([q], Inr (PyDict [(''error'', PyStr (str e))]))"
    using assms(2,3) unfolding fetch_data_sent[OF m(2)]
    by (simp add: try_body_def except_Exception_def)
  then show ?thesis by (simp add: main_fetch[OF m(1)] del: One_nat_def)
qed

theorem main_provider_exception_witness:
  "queries (main (raising_provider
        (Raised True ''Too Many Requests. Rate limited. Try after a while.''))
      sample_library (sample_argv ''2024-01-05'')) =
     [\<lparr>symbol = ''BBCA.JK'', start_arg = ''2024-01-02'', end_arg = ''2024-01-06''\<rparr>]
   \<and> raising_provider (Raised True ''Too Many Requests. Rate limited. Try after a while.'')
       \<lparr>symbol = ''BBCA.JK'', start_arg = ''2024-01-02'', end_arg = ''2024-01-06''\<rparr> =
     Inl (Raised True ''Too Many Requests. Rate limited. Try after a while.'')
   \<and> is_Exception (Raised True ''Too Many Requests. Rate limited. Try after a while.'')
   \<and> main (raising_provider (Raised True ''Too Many Requests. Rate limited. Try after a while.''))
        sample_library (sample_argv ''2024-01-05'') =
       \<lparr>queries = [\<lparr>symbol = ''BBCA.JK'', start_arg = ''2024-01-02'',
                    end_arg = ''2024-01-06''\<rparr>],
         stdout = [PyDict [(''error'',
            PyStr ''Too Many Requests. Rate limited. Try after a while.'')]],
         ending = Exit 0\<rparr>"
proof -
  let ?e = "Raised True ''Too Many Requests. Rate limited. Try after a while.''"
  let ?q = "\<lparr>symbol = ''BBCA.JK'', start_arg = ''2024-01-02'', end_arg = ''2024-01-06''\<rparr>"
  have s: "queries (main (raising_provider ?e) sample_library (sample_argv ''2024-01-05'')) =
      [?q]"
    by (simp add: main_fetch[OF sample_argv_nth(2)] sample_argv_nth raising_fetch
        except_Exception_def del: One_nat_def)
  have r: "raising_provider ?e ?q = Inl ?e" by (simp add: raising_provider_def)
  have x: "is_Exception ?e" by simp
  from main_provider_exception[where P = "raising_provider ?e" and L = sample_library
      and argv = "sample_argv ''2024-01-05''" and q = ?q and e = ?e, OF s r x] s r x
  show ?thesis by simp
qed

text \<open>
  The claim as stated fails: an exception whose text is empty gives the dictionary with
  the empty string, and an exception that derives from \<^verbatim>\<open>BaseException\<close> only is not
  caught, so that nothing is printed.
\<close>

theorem main_provider_exception_counterexample:
  "main (raising_provider (Raised True '''')) sample_library (sample_argv ''2024-01-05'') =
     \<lparr>queries = [\<lparr>symbol = ''BBCA.JK'', start_arg = ''2024-01-02'',
                  end_arg = ''2024-01-06''\<rparr>],
       stdout = [PyDict [(''error'', PyStr '''')]], ending = Exit 0\<rparr>
   \<and> main (raising_provider (Raised False ''KeyboardInterrupt'')) sample_library
       (sample_argv ''2024-01-05'') =
     \<lparr>queries = [\<lparr>symbol = ''BBCA.JK'', start_arg = ''2024-01-02'',
                  end_arg = ''2024-01-06''\<rparr>],
       stdout = [],
       ending = UncaughtException (Uncaught (Raised False ''KeyboardInterrupt''))\<rparr>"
  by (simp add: main_fetch[OF sample_argv_nth(2)] sample_argv_nth raising_fetch
      except_Exception_def del: One_nat_def)

text \<open>
  Claim C8. The branch for equal dates and the branch for a range compute the same
  adjustment of the end date, which is the single transformation of the specification
  (parse, add one day, print); so \<open>fetch_data\<close>, with its conditional, equals
  \<open>fetch_data_unified\<close>, the one code path, on every input and for every provider.
\<close>

theorem end_date_branches_identical:
  "same_day_branch pad end_date = range_branch pad end_date
   \<and> same_day_branch pad end_date = add_one_day pad end_date
   \<and> range_branch pad end_date = add_one_day pad end_date
   \<and> fetch_data P L ticker start_date end_date =
       fetch_data_unified P L ticker start_date end_date"
  by (simp add: same_day_branch_eq range_branch_eq fetch_data_eq fetch_data_unified_def Let_def
      split: sum.splits)

theorem end_date_branches_identical_witness:
  "same_day_branch False ''2024-01-02'' = Inr ''2024-01-03''
   \<and> range_branch False ''2024-01-05'' = Inr ''2024-01-06''
   \<and> fetch_data sample_provider sample_library ''BBCA'' ''2024-01-02'' ''2024-01-02'' =
       fetch_data_unified sample_provider sample_library ''BBCA'' ''2024-01-02'' ''2024-01-02''
   \<and> fetch_data sample_provider sample_library ''BBCA'' ''2024-01-02'' ''2024-01-05'' =
       fetch_data_unified sample_provider sample_library ''BBCA'' ''2024-01-02'' ''2024-01-05''"
proof -
  have a: "add_one_day False ''2024-01-02'' = Inr ''2024-01-03''" by code_simp
  have b: "add_one_day False ''2024-01-05'' = Inr ''2024-01-06''" by code_simp
  from a b
    end_date_branches_identical[of False "''2024-01-02''" sample_provider sample_library
      "''BBCA''" "''2024-01-02''"]
    end_date_branches_identical[of False "''2024-01-05''" sample_provider sample_library
      "''BBCA''" "''2024-01-02''"]
  show ?thesis by simp
qed

text \<open>
  Claim C9. With more than three arguments after the script's name, the run is the run
  on the first three: the queries sent, what is printed and how the process ends do not
  depend on the further arguments (nor on the script's name).
\<close>

theorem main_ignores_extra_arguments:
  "main P L (script # ticker # start # end_a # extra) =
   main P L (script' # ticker # start # end_a # [])"
  by (simp add: main_def)

theorem main_ignores_extra_arguments_witness:
  "main sample_provider sample_library
     [''fetch_yfinance.py'', ''BBCA'', ''2024-01-02'', ''2024-01-02'', ''--verbose'', ''7''] =
   main sample_provider sample_library (sample_argv ''2024-01-02'')"
  unfolding sample_argv_def
  by (rule main_ignores_extra_arguments)

text \<open>
  Claim C10. When \<open>fetch_data\<close> returns a list of bars for the provider's table, the list
  has one bar for each row, in the order of the rows: the bar at a place is the dictionary
  built from the row at that place, so no row is dropped, repeated or moved. The list is
  returned whenever every row converts.
\<close>

theorem bars_one_per_row_in_order:
  assumes "fst (fetch_data P L ticker start_date end_date) = [q]" and "P q = Inr df"
  shows
    "(snd (fetch_data P L ticker start_date end_date) = Inr (PyList bars) \<longrightarrow>
        length bars = length df \<and> map Inr bars = map (bar_of_row L) df \<and>
        (\<forall>i < length df. bar_of_row L (df ! i) = Inr (bars ! i)))
     \<and> ((\<forall>row \<in> set df. \<exists>bar. bar_of_row L row = Inr bar) \<longrightarrow>
        (\<exists>bars. snd (fetch_data P L ticker start_date end_date) = Inr (PyList bars)))"
proof (intro conjI impI)
  assume r: "snd (fetch_data P L ticker start_date end_date) = Inr (PyList bars)"
  note b = fetch_data_bars[OF assms r]
  from rows_loop_map[OF b] show "map Inr bars = map (bar_of_row L) df" by simp
  from rows_loop_nth(1)[OF b] show "length bars = length df" .
  from rows_loop_nth(2)[OF b] show "\<forall>i < length df. bar_of_row L (df ! i) = Inr (bars ! i)"
    by blast
next
  assume "\<forall>row \<in> set df. \<exists>bar. bar_of_row L row = Inr bar"
  from rows_loop_total[OF this, of "[]"]
  obtain results where "rows_loop L df [] = Inr results" ..
  then show "\<exists>bars. snd (fetch_data P L ticker start_date end_date) = Inr (PyList bars)"
    by (simp add: fetch_data_sent[OF assms(1)] try_body_rows[where P = P, OF assms(2)]
        except_Exception_def)
qed

theorem bars_one_per_row_in_order_witness:
  "fst (fetch_data sample_provider sample_library ''BBCA'' ''2024-01-02'' ''2024-01-05'') =
     [\<lparr>symbol = ''BBCA.JK'', start_arg = ''2024-01-02'', end_arg = ''2024-01-06''\<rparr>]
   \<and> sample_provider
       \<lparr>symbol = ''BBCA.JK'', start_arg = ''2024-01-02'', end_arg = ''2024-01-06''\<rparr> =
     Inr [row_jan_2, row_jan_3]
   \<and> snd (fetch_data sample_provider sample_library ''BBCA'' ''2024-01-02'' ''2024-01-05'') =
       Inr (PyList [bar_jan_2, bar_jan_3])
   \<and> length [bar_jan_2, bar_jan_3] = length [row_jan_2, row_jan_3]
   \<and> map Inr [bar_jan_2, bar_jan_3] = map (bar_of_row sample_library) [row_jan_2, row_jan_3]"
proof -
  let ?q = "\<lparr>symbol = ''BBCA.JK'', start_arg = ''2024-01-02'', end_arg = ''2024-01-06''\<rparr>"
  have s: "fst (fetch_data sample_provider sample_library ''BBCA'' ''2024-01-02''
      ''2024-01-05'') = [?q]" by (simp add: sample_fetch)
  have p: "sample_provider ?q = Inr [row_jan_2, row_jan_3]" by (simp add: sample_provider_def)
  have r: "snd (fetch_data sample_provider sample_library ''BBCA'' ''2024-01-02''
      ''2024-01-05'') = Inr (PyList [bar_jan_2, bar_jan_3])" by (simp add: sample_fetch)
  from bars_one_per_row_in_order[where P = sample_provider and L = sample_library
      and bars = "[bar_jan_2, bar_jan_3]", OF s p] r
  have "length [bar_jan_2, bar_jan_3] = length [row_jan_2, row_jan_3]
     \<and> map Inr [bar_jan_2, bar_jan_3] = map (bar_of_row sample_library) [row_jan_2, row_jan_3]"
    by blast
  with s p r show ?thesis by blast
qed

end
